theory Spec2Isabelle
  imports Main "HOL-Library.Sublist"
begin

section \<open>Text\<close>

text \<open>
  A Python \<^verbatim>\<open>str\<close> is a sequence of Unicode code points; positions, lengths and slices
  count code points. A text is therefore a list of code points, each a natural number.
  ASCII literals are written through \<open>cps\<close>; the emoji of the headings are given by
  their code points.

  The case mapping and the class of the decimal digits are tables of the interpreter's
  Unicode database, not of this program. The classification reads the message only
  through \<^verbatim>\<open>str.lower\<close>, and the statistics read digits only through \<^verbatim>\<open>\d\<close> and
  \<^verbatim>\<open>int()\<close>: these are parameters of the model, \<open>lw\<close> for \<^verbatim>\<open>str.lower\<close> and \<open>dv\<close> for
  the table of the decimal digits. A statement about the classification holds for every
  function \<open>lw\<close>, and one about the statistics for every table \<open>dv\<close> that agrees with
  ASCII on the ASCII characters, so for those of the interpreter. The interpreter's limit
  on the number of digits that \<^verbatim>\<open>int()\<close> converts is the parameter \<open>max_str_digits\<close>.
  \<open>lower\<close> is the ASCII part of \<^verbatim>\<open>str.lower\<close>, with which it agrees on every text of
  ASCII characters; statements are evaluated with it. The cleaning of a message, whose
  patterns are ASCII, is modelled with \<open>lower\<close> and \<open>upper_cp\<close>, and is exact on messages
  of ASCII characters. The whitespace class is Python's full set.
\<close>

type_synonym str = "nat list"

definition cps :: "string \<Rightarrow> str" where
  "cps = map of_char"

definition lower_cp :: "nat \<Rightarrow> nat" where
  "lower_cp c = (if 65 \<le> c \<and> c \<le> 90 then c + 32 else c)"

definition upper_cp :: "nat \<Rightarrow> nat" where
  "upper_cp c = (if 97 \<le> c \<and> c \<le> 122 then c - 32 else c)"

definition lower :: "str \<Rightarrow> str" where
  "lower = map lower_cp"

text \<open>\<^verbatim>\<open>s.startswith(p)\<close> and \<^verbatim>\<open>w in s\<close>.\<close>

definition startswith :: "str \<Rightarrow> str \<Rightarrow> bool" where
  "startswith s p = prefix p s"

definition str_in :: "str \<Rightarrow> str \<Rightarrow> bool" where
  "str_in w s = sublist w s"

text \<open>
  Python's whitespace class (\<^verbatim>\<open>str.isspace\<close>, \<^verbatim>\<open>str.strip\<close>, and \<^verbatim>\<open>\s\<close> of a
  \<^verbatim>\<open>str\<close> pattern), and the ASCII decimal digits, which are the digits that
  \<^verbatim>\<open>f"{n}"\<close> writes.
\<close>

definition isspace :: "nat \<Rightarrow> bool" where
  "isspace c \<longleftrightarrow>
     (9 \<le> c \<and> c \<le> 13) \<or> (28 \<le> c \<and> c \<le> 32) \<or> c = 0x85 \<or> c = 0xA0 \<or> c = 0x1680
     \<or> (0x2000 \<le> c \<and> c \<le> 0x200A) \<or> c = 0x2028 \<or> c = 0x2029 \<or> c = 0x202F \<or> c = 0x205F
     \<or> c = 0x3000"

definition isdigit :: "nat \<Rightarrow> bool" where
  "isdigit c \<longleftrightarrow> 48 \<le> c \<and> c \<le> 57"

definition lstrip :: "str \<Rightarrow> str" where
  "lstrip s = dropWhile isspace s"

definition strip :: "str \<Rightarrow> str" where
  "strip s = rev (dropWhile isspace (rev (dropWhile isspace s)))"


text \<open>\<^verbatim>\<open>sep.join(parts)\<close>.\<close>

fun join :: "str \<Rightarrow> str list \<Rightarrow> str" where
  "join sep [] = []"
| "join sep [x] = x"
| "join sep (x # y # zs) = x @ sep @ join sep (y # zs)"

text \<open>
  \<^verbatim>\<open>s.find(sub, start)\<close>: the lowest index at or after \<open>start\<close> where \<open>sub\<close> occurs, or
  \<open>-1\<close>. A negative \<open>start\<close> counts from the end and is clamped at 0; a \<open>start\<close> beyond
  the end finds nothing. \<open>find_from sub t i\<close> searches the text \<open>t\<close> that begins at index
  \<open>i\<close> of the whole.
\<close>

fun find_from :: "str \<Rightarrow> str \<Rightarrow> nat \<Rightarrow> int" where
  "find_from sub [] i = (if sub = [] then int i else - 1)"
| "find_from sub (c # cs) i = (if prefix sub (c # cs) then int i else find_from sub cs (Suc i))"

definition find_str :: "str \<Rightarrow> str \<Rightarrow> int \<Rightarrow> int" where
  "find_str s sub start =
     (let n = int (length s);
          st = (if start < 0 then max (n + start) 0 else start)
      in if st > n then - 1 else find_from sub (drop (nat st) s) (nat st))"

text \<open>
  Decimal numerals: \<^verbatim>\<open>f"{n}"\<close> of an integer, and the value of a text of ASCII digits.
  Python's integers are unbounded.
\<close>

fun digits_of_nat :: "nat \<Rightarrow> str" where
  "digits_of_nat n = (if n < 10 then [48 + n] else digits_of_nat (n div 10) @ [48 + n mod 10])"

declare digits_of_nat.simps [simp del]

definition str_of_int :: "int \<Rightarrow> str" where
  "str_of_int i = (if i < 0 then 45 # digits_of_nat (nat (- i)) else digits_of_nat (nat i))"

definition int_of_digits :: "str \<Rightarrow> int" where
  "int_of_digits ds = int (foldl (\<lambda>a d. 10 * a + (d - 48)) 0 ds)"

section \<open>Per-commit statistics\<close>











section \<open>The commit record and the category table\<close>

record commit =
  hash :: str
  message :: str
  author :: str
  date :: str
  body :: str
  insertions :: int
  deletions :: int

definition emoji_sparkles :: str where "emoji_sparkles = [0x2728]"
definition emoji_bug :: str where "emoji_bug = [0x1F41B]"
definition emoji_books :: str where "emoji_books = [0x1F4DA]"
definition emoji_palette :: str where "emoji_palette = [0x1F3A8]"
definition emoji_wrench :: str where "emoji_wrench = [0x1F527]"
definition emoji_rocket :: str where "emoji_rocket = [0x1F680]"
definition emoji_test_tube :: str where "emoji_test_tube = [0x1F9EA]"
definition emoji_shield :: str where "emoji_shield = [0x1F6E1, 0xFE0F]"
definition emoji_arrows :: str where "emoji_arrows = [0x1F504]"
definition emoji_wastebasket :: str where "emoji_wastebasket = [0x1F5D1, 0xFE0F]"
definition emoji_package :: str where "emoji_package = [0x1F4E6]"

text \<open>
  \<^verbatim>\<open>COMMIT_TYPES\<close> is an insertion-ordered dictionary: its iteration order is the order
  of the literal, so it is an association list of (type, (emoji, description)).
\<close>

definition COMMIT_TYPES :: "(str \<times> str \<times> str) list" where
  "COMMIT_TYPES =
    [(cps ''feat'', emoji_sparkles @ cps '' Added'', cps ''New features and enhancements''),
     (cps ''fix'', emoji_bug @ cps '' Fixed'', cps ''Bug fixes and improvements''),
     (cps ''docs'', emoji_books @ cps '' Documentation'', cps ''Documentation updates''),
     (cps ''style'', emoji_palette @ cps '' Changed'', cps ''Code style and formatting changes''),
     (cps ''refactor'', emoji_wrench @ cps '' Changed'', cps ''Code refactoring and restructuring''),
     (cps ''perf'', emoji_rocket @ cps '' Performance'', cps ''Performance improvements''),
     (cps ''test'', emoji_test_tube @ cps '' Testing'', cps ''Test additions and improvements''),
     (cps ''chore'', emoji_wrench @ cps '' Changed'', cps ''Maintenance tasks and chores''),
     (cps ''security'', emoji_shield @ cps '' Security'', cps ''Security improvements''),
     (cps ''build'', emoji_wrench @ cps '' Changed'', cps ''Build system changes''),
     (cps ''ci'', emoji_wrench @ cps '' Changed'', cps ''CI/CD pipeline changes''),
     (cps ''revert'', emoji_arrows @ cps '' Changed'', cps ''Reverted changes''),
     (cps ''remove'', emoji_wastebasket @ cps '' Removed'', cps ''Removed features and cleanup''),
     (cps ''deps'', emoji_package @ cps '' Changed'', cps ''Dependency updates'')]"

section \<open>Classification\<close>

text \<open>
  \<^verbatim>\<open>any(word in message for word in [...])\<close> over a literal word list.
\<close>

definition any_word_in :: "string list \<Rightarrow> str \<Rightarrow> bool" where
  "any_word_in ws msg = list_ex (\<lambda>word. str_in (cps word) msg) ws"

text \<open>
  \<^verbatim>\<open>categorize_commit\<close>, with \<^verbatim>\<open>str.lower\<close> as the parameter \<open>lw\<close>: the loop over the
  table returns at the first type whose \<^verbatim>\<open>"<type>:"\<close> starts the lower-cased message;
  otherwise the chain of keyword tests decides, in the order of the source.
\<close>

definition categorize_commit :: "(str \<Rightarrow> str) \<Rightarrow> commit \<Rightarrow> str \<times> str \<times> str" where
  "categorize_commit lw commit_data =
    (let msg = lw (message commit_data) in
     case find (\<lambda>(commit_type, emoji, description). startswith msg (commit_type @ cps '':''))
            COMMIT_TYPES of
       Some (commit_type, emoji, description) \<Rightarrow> (commit_type, emoji, description)
     | None \<Rightarrow>
        if any_word_in [''add'', ''new'', ''feature'', ''implement'', ''create'', ''introduce'',
                        ''calculator'', ''chart''] msg
        then (cps ''feat'', emoji_sparkles @ cps '' Added'', cps ''New features and enhancements'')
        else if any_word_in [''fix'', ''bug'', ''issue'', ''error'', ''resolve'', ''crash''] msg
        then (cps ''fix'', emoji_bug @ cps '' Fixed'', cps ''Bug fixes and improvements'')
        else if any_word_in [''doc'', ''readme'', ''comment'', ''changelog'', ''update readme''] msg
        then (cps ''docs'', emoji_books @ cps '' Documentation'', cps ''Documentation updates'')
        else if any_word_in [''style'', ''format'', ''indent'', ''ui'', ''ux'', ''css'', ''styling'',
                             ''tailwind''] msg
        then (cps ''style'', emoji_palette @ cps '' Changed'', cps ''Code style and formatting changes'')
        else if any_word_in [''refactor'', ''restructure'', ''clean'', ''optimize'', ''enhance''] msg
        then (cps ''refactor'', emoji_wrench @ cps '' Changed'', cps ''Code refactoring and restructuring'')
        else if any_word_in [''perf'', ''performance'', ''speed'', ''optimize''] msg
        then (cps ''perf'', emoji_rocket @ cps '' Performance'', cps ''Performance improvements'')
        else if any_word_in [''test'', ''spec'', ''coverage'', ''testing''] msg
        then (cps ''test'', emoji_test_tube @ cps '' Testing'', cps ''Test additions and improvements'')
        else if any_word_in [''security'', ''vulnerability'', ''auth'', ''protect''] msg
        then (cps ''security'', emoji_shield @ cps '' Security'', cps ''Security improvements'')
        else if any_word_in [''remove'', ''delete'', ''cleanup'', ''deprecate'', ''drop''] msg
        then (cps ''remove'', emoji_wastebasket @ cps '' Removed'', cps ''Removed features and cleanup'')
        else if any_word_in [''deps'', ''dependency'', ''package'', ''npm'', ''yarn'', ''install''] msg
        then (cps ''deps'', emoji_package @ cps '' Changed'', cps ''Dependency updates'')
        else if any_word_in [''update'', ''change'', ''modify'', ''improve'', ''enhance''] msg
        then (cps ''chore'', emoji_wrench @ cps '' Changed'', cps ''Maintenance tasks and chores'')
        else (cps ''chore'', emoji_wrench @ cps '' Changed'', cps ''Maintenance tasks and chores''))"

section \<open>Formatting\<close>

text \<open>
  \<^verbatim>\<open>clean_commit_message\<close>. The substitution
  \<^verbatim>\<open>re.sub(r'^(feat|fix|...|deps):\s*', '', message, flags=re.IGNORECASE)\<close> removes, at the
  start of the message only, one of the alternatives followed by a colon and all the
  whitespace after it. Then the first entry of \<^verbatim>\<open>prefixes_to_remove\<close> that starts the
  lower-cased message is cut off and the rest is stripped (\<^verbatim>\<open>break\<close> ends the loop).
  Last, the first character is put in upper case.
\<close>

definition type_alternatives :: "string list" where
  "type_alternatives =
     [''feat'', ''fix'', ''docs'', ''style'', ''refactor'', ''perf'', ''test'', ''chore'', ''security'',
      ''build'', ''ci'', ''revert'', ''remove'', ''deps'']"

definition prefixes_to_remove :: "string list" where
  "prefixes_to_remove =
     [''feat:'', ''fix:'', ''docs:'', ''style:'', ''refactor:'', ''test:'', ''chore:'',
      ''feat('', ''fix('', ''docs('', ''style('', ''refactor('', ''test('', ''chore('']"

definition re_sub_type_prefix :: "str \<Rightarrow> str" where
  "re_sub_type_prefix msg =
     (case find (\<lambda>t. startswith (lower msg) (cps t @ cps '':'')) type_alternatives of
        Some t \<Rightarrow> dropWhile isspace (drop (length t + 1) msg)
      | None \<Rightarrow> msg)"

definition capitalize_first :: "str \<Rightarrow> str" where
  "capitalize_first msg = (case msg of [] \<Rightarrow> [] | c # cs \<Rightarrow> upper_cp c # cs)"

definition clean_commit_message :: "str \<Rightarrow> str" where
  "clean_commit_message msg0 =
     (let msg1 = re_sub_type_prefix msg0;
          msg2 = (case find (\<lambda>pre. startswith (lower msg1) (lower (cps pre))) prefixes_to_remove of
                    Some pre \<Rightarrow> strip (drop (length pre) msg1)
                  | None \<Rightarrow> msg1)
      in capitalize_first msg2)"

text \<open>\<^verbatim>\<open>format_commit_with_stats\<close>; code point 96 is the backtick.\<close>

definition format_commit_with_stats :: "str \<Rightarrow> int \<Rightarrow> int \<Rightarrow> str" where
  "format_commit_with_stats msg ins dels =
     (let clean_msg = clean_commit_message msg in
      if ins > 0 \<or> dels > 0 then
        (let stats_parts = (if ins > 0 then [cps ''+'' @ str_of_int ins] else [])
                           @ (if dels > 0 then [cps ''-'' @ str_of_int dels] else []);
             stats_badge = cps '' '' @ [96] @ join (cps '', '') stats_parts @ [96]
         in clean_msg @ stats_badge)
      else clean_msg)"

section \<open>Rendering a release section\<close>

text \<open>
  \<^verbatim>\<open>generate_release_section\<close>. \<^verbatim>\<open>categorized\<close> is a \<^verbatim>\<open>defaultdict(list)\<close>: a key is
  present exactly when a commit was appended under it. The section is built by appending
  to a text, first over the table in its order, then the summary and the rule. \<open>lw\<close>
  is the \<^verbatim>\<open>str.lower\<close> that \<^verbatim>\<open>categorize_commit\<close> calls.
\<close>

definition heading_line :: "str \<times> str \<times> str \<Rightarrow> str" where
  "heading_line entry =
     (case entry of (commit_type, emoji, description) \<Rightarrow>
        cps ''### '' @ emoji @ cps '' '' @ description @ cps ''\<newline>'')"

definition bullet_line :: "commit \<Rightarrow> str" where
  "bullet_line c =
     cps ''- '' @ format_commit_with_stats (message c) (insertions c) (deletions c) @ cps ''\<newline>''"

definition categorize_all :: "(str \<Rightarrow> str) \<Rightarrow> commit list \<Rightarrow> (str \<rightharpoonup> commit list)" where
  "categorize_all lw commits =
     fold (\<lambda>c categorized.
             (case categorize_commit lw c of (commit_type, emoji, description) \<Rightarrow>
                categorized(commit_type \<mapsto>
                  (case categorized commit_type of None \<Rightarrow> [] | Some cs \<Rightarrow> cs) @ [c])))
          commits Map.empty"

definition generate_release_section ::
  "(str \<Rightarrow> str) \<Rightarrow> str \<Rightarrow> commit list \<Rightarrow> str \<Rightarrow> str" where
  "generate_release_section lw tag commits release_date =
     (if commits = [] then
        cps ''## ['' @ tag @ cps ''] - '' @ release_date @ cps ''\<newline>\<newline>### '' @ emoji_sparkles
        @ cps '' Added\<newline>- N/A\<newline>\<newline>### '' @ emoji_wrench
        @ cps '' Changed\<newline>- N/A\<newline>\<newline>### '' @ emoji_bug
        @ cps '' Fixed\<newline>- N/A\<newline>\<newline>---\<newline>\<newline>''
      else
        (let categorized = categorize_all lw commits;
             section0 = cps ''## ['' @ tag @ cps ''] - '' @ release_date @ cps ''\<newline>\<newline>'';
             section1 =
               fold (\<lambda>entry sec.
                       (case categorized (fst entry) of
                          None \<Rightarrow> sec
                        | Some cs \<Rightarrow>
                            fold (\<lambda>c sec'. sec' @ bullet_line c) cs (sec @ heading_line entry)
                            @ cps ''\<newline>''))
                    COMMIT_TYPES section0;
             total_commits = int (length commits);
             section2 = section1 @ cps ''**Total Changes:** '' @ str_of_int total_commits
                        @ cps '' commits\<newline>\<newline>''
         in section2 @ cps ''---\<newline>\<newline>''))"

section \<open>Splicing the section into the changelog\<close>

text \<open>
  The text part of \<^verbatim>\<open>update_changelog_for_tag\<close>: \<open>file\<close> is the content of
  \<^verbatim>\<open>CHANGELOG.md\<close> when the file exists; the result is the content written back.
  \<open>insert_pos\<close> is at least 6 where it is used, so the slices are \<open>take\<close> and \<open>drop\<close>,
  which stop at the end of the text as Python's slices do.
\<close>

definition default_changelog :: str where
  "default_changelog =
     cps ''# Changelog\<newline>\<newline>''
      @ cps ''All notable changes to the LifeSmart Calculator project will be documented in this file.\<newline>''
      @ cps ''\<newline>''
      @ cps ''The format is based on [Keep a Changelog](https://keepachangelog.com/en/1.0.0/),\<newline>''
      @ cps ''and this project adheres to [Semantic Versioning](https://semver.org/spec/v2.0.0.html).\<newline>''
      @ cps ''\<newline>## [Unreleased]\<newline>\<newline>### ''
      @ emoji_sparkles
      @ cps '' Added\<newline>- N/A\<newline>\<newline>### ''
      @ emoji_wrench
      @ cps '' Changed\<newline>- N/A\<newline>\<newline>### ''
      @ emoji_bug
      @ cps '' Fixed\<newline>- N/A\<newline>\<newline>---\<newline>\<newline>''"

definition update_changelog_for_tag :: "str option \<Rightarrow> str \<Rightarrow> str" where
  "update_changelog_for_tag file release_section =
     (let existing_content = (case file of Some content \<Rightarrow> content | None \<Rightarrow> default_changelog);
          unreleased_section_end =
            find_str existing_content (cps ''---\<newline>\<newline>'')
              (find_str existing_content (cps ''## [Unreleased]'') 0)
      in if unreleased_section_end = - 1 then
           existing_content @ cps ''\<newline>'' @ release_section
         else
           (let insert_pos = unreleased_section_end + 6
            in take (nat insert_pos) existing_content @ release_section
               @ drop (nat insert_pos) existing_content))"

section \<open>Auxiliary definitions for the statements\<close>

text \<open>
  The classification as the specification words it, for comparison with the code: the
  keyword categories in their priority order, each with its trigger words, and the
  table entry of a type.
\<close>

definition spec_keyword_priority :: "(string list \<times> str) list" where
  "spec_keyword_priority =
    [([''add'', ''new'', ''feature'', ''implement'', ''create'', ''introduce'', ''calculator'',
       ''chart''], cps ''feat''),
     ([''fix'', ''bug'', ''issue'', ''error'', ''resolve'', ''crash''], cps ''fix''),
     ([''doc'', ''readme'', ''comment'', ''changelog'', ''update readme''], cps ''docs''),
     ([''style'', ''format'', ''indent'', ''ui'', ''ux'', ''css'', ''styling'', ''tailwind''],
      cps ''style''),
     ([''refactor'', ''restructure'', ''clean'', ''optimize'', ''enhance''], cps ''refactor''),
     ([''perf'', ''performance'', ''speed'', ''optimize''], cps ''perf''),
     ([''test'', ''spec'', ''coverage'', ''testing''], cps ''test''),
     ([''security'', ''vulnerability'', ''auth'', ''protect''], cps ''security''),
     ([''remove'', ''delete'', ''cleanup'', ''deprecate'', ''drop''], cps ''remove''),
     ([''deps'', ''dependency'', ''package'', ''npm'', ''yarn'', ''install''], cps ''deps''),
     ([''update'', ''change'', ''modify'', ''improve'', ''enhance''], cps ''chore'')]"

definition category_of :: "str \<Rightarrow> (str \<times> str \<times> str) option" where
  "category_of t = map_option (\<lambda>(emoji, description). (t, emoji, description)) (map_of COMMIT_TYPES t)"

definition has_type_prefix :: "str \<Rightarrow> bool" where
  "has_type_prefix msg =
     list_ex (\<lambda>(commit_type, emoji, description). startswith msg (commit_type @ cps '':''))
       COMMIT_TYPES"

definition no_keyword :: "str \<Rightarrow> bool" where
  "no_keyword msg = list_all (\<lambda>(ws, t). \<not> any_word_in ws msg) spec_keyword_priority"

text \<open>
  The rendering as the specification words it: the group of a type is the sub-list of
  the commits classified under it, in the order of arrival; a non-empty group gives a
  heading line, one bullet per commit and a blank line, an empty group gives nothing.
\<close>

definition group_of :: "(str \<Rightarrow> str) \<Rightarrow> str \<Rightarrow> commit list \<Rightarrow> commit list" where
  "group_of lw t commits = filter (\<lambda>c. fst (categorize_commit lw c) = t) commits"

definition group_text :: "(str \<Rightarrow> str) \<Rightarrow> commit list \<Rightarrow> str \<times> str \<times> str \<Rightarrow> str" where
  "group_text lw commits entry =
     (if group_of lw (fst entry) commits = [] then []
      else heading_line entry @ concat (map bullet_line (group_of lw (fst entry) commits))
           @ cps ''\<newline>'')"

text \<open>
  Shapes of a message, for the statements about \<open>clean_commit_message\<close>: a word that is
  one of the fourteen types in any case, a text that starts with such a type and a colon,
  and a text that starts with an entry of \<^verbatim>\<open>prefixes_to_remove\<close>.
\<close>

definition is_type_word :: "str \<Rightarrow> bool" where
  "is_type_word p \<longleftrightarrow> lower p \<in> set (map cps type_alternatives)"

definition starts_with_type_colon :: "str \<Rightarrow> bool" where
  "starts_with_type_colon s =
     list_ex (\<lambda>t. startswith (lower s) (cps t @ cps '':'')) type_alternatives"

definition starts_with_common_prefix :: "str \<Rightarrow> bool" where
  "starts_with_common_prefix s =
     list_ex (\<lambda>pre. startswith (lower s) (lower (cps pre))) prefixes_to_remove"



definition mk_commit :: "string \<Rightarrow> int \<Rightarrow> int \<Rightarrow> commit" where
  "mk_commit m i d =
     \<lparr>hash = [], message = cps m, author = [], date = [], body = [], insertions = i, deletions = d\<rparr>"

section \<open>Properties of the classification\<close>

lemma find_unique:
  assumes "x \<in> set xs" and "P x" and "\<forall>y\<in>set xs. P y \<longrightarrow> x = y"
  shows "find P xs = Some x"
  using assms
proof (induction xs)
  case Nil
  then show ?case by simp
next
  case (Cons a xs)
  have a_in: "a \<in> set (a # xs)" by (rule list.set_intros(1))
  show ?case
  proof (cases "P a")
    case True
    from bspec [OF Cons.prems(3) a_in] True have "x = a" by (rule mp)
    with True show ?thesis by (simp only: find.simps if_True)
  next
    case False
    with Cons.prems(2) have "x \<noteq> a" by blast
    with Cons.prems(1) have 1: "x \<in> set xs" by (simp only: list.set insert_iff) blast
    have 2: "\<forall>y\<in>set xs. P y \<longrightarrow> x = y"
    proof
      fix y assume "y \<in> set xs"
      then have "y \<in> set (a # xs)" by (rule list.set_intros(2))
      from bspec [OF Cons.prems(3) this] show "P y \<longrightarrow> x = y" .
    qed
    from Cons.IH[OF 1 Cons.prems(2) 2] False show ?thesis by (simp only: find.simps if_False)
  qed
qed

lemma find_Some_in: "find P xs = Some x \<Longrightarrow> x \<in> set xs"
  by (induction xs) (auto split: if_splits)

lemma prefix_sep_unique:
  assumes "prefix (a @ [c]) s" and "prefix (b @ [c]) s" and "c \<notin> set a" and "c \<notin> set b"
  shows "a = b"
proof -
  have "prefix (a @ [c]) (b @ [c]) \<or> prefix (b @ [c]) (a @ [c])"
    using assms(1,2) by (rule prefix_same_cases)
  moreover have "a = b" if "prefix (x @ [c]) (y @ [c])" "c \<notin> set y" "x = a \<and> y = b \<or> x = b \<and> y = a" for x y
  proof -
    from that(1) have "prefix (x @ [c]) y \<or> x @ [c] = y @ [c]"
      by (auto simp: prefix_snoc)
    moreover have "\<not> prefix (x @ [c]) y"
    proof
      assume "prefix (x @ [c]) y"
      then have "set (x @ [c]) \<subseteq> set y" by (rule set_mono_prefix)
      with that(2) show False by simp
    qed
    ultimately have "x = y" by simp
    with that(3) show ?thesis by auto
  qed
  ultimately show ?thesis using assms(3,4) by blast
qed

lemma cps_colon: "cps '':'' = [58]"
  by (simp add: cps_def)

lemma COMMIT_TYPES_no_colon: "(t, e, d) \<in> set COMMIT_TYPES \<Longrightarrow> 58 \<notin> set t"
  by (auto simp: COMMIT_TYPES_def cps_def)

lemma COMMIT_TYPES_distinct: "distinct (map fst COMMIT_TYPES)"
  by (simp add: COMMIT_TYPES_def cps_def)

lemma COMMIT_TYPES_key_unique:
  assumes "(t, e, d) \<in> set COMMIT_TYPES" and "(t, e', d') \<in> set COMMIT_TYPES"
  shows "e' = e \<and> d' = d"
  using eq_key_imp_eq_value [OF COMMIT_TYPES_distinct assms] by simp

text \<open>
  Claim C1. Whenever the lower-cased message starts with \<^verbatim>\<open>"<type>:"\<close> for a type of
  the table, \<open>categorize_commit\<close> returns that type's entry, whatever else the message
  contains, and whatever function \<open>lw\<close> the lower-casing is.
\<close>

theorem categorize_commit_prefix:
  assumes "(t, e, d) \<in> set COMMIT_TYPES"
    and "startswith (lw (message c)) (t @ cps '':'')"
  shows "categorize_commit lw c = (t, e, d)"
proof -
  let ?P = "\<lambda>(commit_type, emoji, description).
              startswith (lw (message c)) (commit_type @ cps '':'')"
  have here: "?P (t, e, d)" using assms(2) by simp
  have only: "\<forall>y\<in>set COMMIT_TYPES. ?P y \<longrightarrow> (t, e, d) = y"
  proof (intro ballI impI)
    fix y
    assume y: "y \<in> set COMMIT_TYPES" "?P y"
    obtain t' e' d' where y_eq: "y = (t', e', d')" by (cases y)
    from y(2) y_eq have "prefix (t' @ [58]) (lw (message c))"
      by (simp add: startswith_def cps_colon)
    moreover from assms(2) have "prefix (t @ [58]) (lw (message c))"
      by (simp add: startswith_def cps_colon)
    moreover have "58 \<notin> set t'" using y(1) y_eq COMMIT_TYPES_no_colon by blast
    moreover have "58 \<notin> set t" using assms(1) COMMIT_TYPES_no_colon by blast
    ultimately have "t' = t" by (rule prefix_sep_unique)
    with y(1) y_eq assms(1) COMMIT_TYPES_key_unique show "(t, e, d) = y" by blast
  qed
  have "find ?P COMMIT_TYPES = Some (t, e, d)"
    using assms(1) here only by (rule find_unique)
  then show ?thesis by (simp add: categorize_commit_def)
qed


text \<open>
  The claim at a message with a prefix in upper case and keywords of other categories,
  with the ASCII lower-casing.
\<close>

theorem categorize_commit_prefix_witness:
  "(cps ''fix'', emoji_bug @ cps '' Fixed'', cps ''Bug fixes and improvements'') \<in> set COMMIT_TYPES
   \<and> startswith (lower (message (mk_commit ''Fix: add new docs'' 0 0))) (cps ''fix'' @ cps '':'')
   \<and> categorize_commit lower (mk_commit ''Fix: add new docs'' 0 0)
       = (cps ''fix'', emoji_bug @ cps '' Fixed'', cps ''Bug fixes and improvements'')"
proof -
  have h1: "(cps ''fix'', emoji_bug @ cps '' Fixed'', cps ''Bug fixes and improvements'') \<in> set COMMIT_TYPES"
    by (simp add: COMMIT_TYPES_def)
  have h2: "startswith (lower (message (mk_commit ''Fix: add new docs'' 0 0))) (cps ''fix'' @ cps '':'')"
    by (simp add: mk_commit_def startswith_def lower_def lower_cp_def cps_def)
  from categorize_commit_prefix [where lw = lower and c = "mk_commit ''Fix: add new docs'' 0 0", OF h1 h2] h1 h2 show ?thesis by blast
qed

lemma category_of_simps:
  "category_of (cps ''feat'') = Some (cps ''feat'', emoji_sparkles @ cps '' Added'', cps ''New features and enhancements'')"
  "category_of (cps ''fix'') = Some (cps ''fix'', emoji_bug @ cps '' Fixed'', cps ''Bug fixes and improvements'')"
  "category_of (cps ''docs'') = Some (cps ''docs'', emoji_books @ cps '' Documentation'', cps ''Documentation updates'')"
  "category_of (cps ''style'') = Some (cps ''style'', emoji_palette @ cps '' Changed'', cps ''Code style and formatting changes'')"
  "category_of (cps ''refactor'') = Some (cps ''refactor'', emoji_wrench @ cps '' Changed'', cps ''Code refactoring and restructuring'')"
  "category_of (cps ''perf'') = Some (cps ''perf'', emoji_rocket @ cps '' Performance'', cps ''Performance improvements'')"
  "category_of (cps ''test'') = Some (cps ''test'', emoji_test_tube @ cps '' Testing'', cps ''Test additions and improvements'')"
  "category_of (cps ''chore'') = Some (cps ''chore'', emoji_wrench @ cps '' Changed'', cps ''Maintenance tasks and chores'')"
  "category_of (cps ''security'') = Some (cps ''security'', emoji_shield @ cps '' Security'', cps ''Security improvements'')"
  "category_of (cps ''remove'') = Some (cps ''remove'', emoji_wastebasket @ cps '' Removed'', cps ''Removed features and cleanup'')"
  "category_of (cps ''deps'') = Some (cps ''deps'', emoji_package @ cps '' Changed'', cps ''Dependency updates'')"
  by (simp_all add: category_of_def COMMIT_TYPES_def cps_def)

lemma no_prefix_find:
  "\<not> has_type_prefix msg \<Longrightarrow>
   find (\<lambda>(commit_type, emoji, description). startswith msg (commit_type @ cps '':'')) COMMIT_TYPES = None"
  by (auto simp add: has_type_prefix_def find_None_iff list_ex_iff)

lemma categorize_commit_keywords:
  assumes "\<not> has_type_prefix (lw (message c))"
  shows "Some (categorize_commit lw c) =
    (case find (\<lambda>(ws, t). any_word_in ws (lw (message c))) spec_keyword_priority of
       Some (ws, t) \<Rightarrow> category_of t
     | None \<Rightarrow> category_of (cps ''chore''))"
  unfolding categorize_commit_def Let_def no_prefix_find [OF assms] spec_keyword_priority_def
  by (simp add: category_of_simps)


text \<open>
  Claim C2. For a message without a recognized \<^verbatim>\<open>"<type>:"\<close> prefix, the result is the
  category of the first entry of the priority list (feature, fix, docs, style, refactor,
  performance, test, security, remove, dependency update, generic change) one of whose
  trigger words occurs in the lower-cased message: the position of an entry in the
  priority list decides, not the position of a word in the message. The lower-cased
  message is \<open>lw (message c)\<close> for the lower-casing \<open>lw\<close> of the interpreter, whatever
  function it is: a character outside ASCII that \<^verbatim>\<open>str.lower\<close> maps to an ASCII letter
  counts as that letter.
\<close>

theorem categorize_commit_keyword_priority:
  assumes "\<not> has_type_prefix (lw (message c))"
    and "find (\<lambda>(ws, t). any_word_in ws (lw (message c))) spec_keyword_priority = Some (ws, t)"
  shows "Some (categorize_commit lw c) = category_of t \<and> fst (categorize_commit lw c) = t"
proof -
  from categorize_commit_keywords [of lw c, OF assms(1)] assms(2)
  have eq: "Some (categorize_commit lw c) = category_of t" by simp
  then have "fst (categorize_commit lw c) = t"
    by (cases "map_of COMMIT_TYPES t") (auto simp: category_of_def)
  with eq show ?thesis by simp
qed

lemma resolve_new_no_prefix: "\<not> has_type_prefix (lower (message (mk_commit ''Resolve the new crash'' 0 0)))"
  by (simp add: has_type_prefix_def COMMIT_TYPES_def mk_commit_def startswith_def lower_def lower_cp_def cps_def)

lemma resolve_new_find:
  "find (\<lambda>(ws, t). any_word_in ws (lower (message (mk_commit ''Resolve the new crash'' 0 0))))
     spec_keyword_priority
   = Some ([''add'', ''new'', ''feature'', ''implement'', ''create'', ''introduce'', ''calculator'',
       ''chart''], cps ''feat'')"
  by (simp add: spec_keyword_priority_def any_word_in_def str_in_def mk_commit_def lower_def lower_cp_def cps_def sublist_Cons_right)

text \<open>
  The claim at a message where a fix word (resolve) stands before a feature word (new):
  the feature category wins.
\<close>

theorem categorize_commit_keyword_priority_witness:
  "str_in (cps ''resolve'') (lower (message (mk_commit ''Resolve the new crash'' 0 0)))
   \<and> fst (categorize_commit lower (mk_commit ''Resolve the new crash'' 0 0)) = cps ''feat''"
proof -
  have "str_in (cps ''resolve'') (lower (message (mk_commit ''Resolve the new crash'' 0 0)))"
    by (simp add: str_in_def mk_commit_def lower_def lower_cp_def cps_def)
  with categorize_commit_keyword_priority [where lw = lower and c = "mk_commit ''Resolve the new crash'' 0 0",
      OF resolve_new_no_prefix resolve_new_find] show ?thesis by simp
qed

lemma no_keyword_find:
  "no_keyword msg \<Longrightarrow> find (\<lambda>(ws, t). any_word_in ws msg) spec_keyword_priority = None"
  by (auto simp add: no_keyword_def find_None_iff list_all_iff)

lemma category_of_in_table: "category_of t = Some x \<Longrightarrow> x \<in> set COMMIT_TYPES"
  by (auto simp: category_of_def dest: map_of_SomeD)

lemma empty_no_prefix: "\<not> has_type_prefix []"
  by (simp add: has_type_prefix_def COMMIT_TYPES_def startswith_def cps_def)

lemma empty_no_keyword: "no_keyword []"
  by (simp add: no_keyword_def spec_keyword_priority_def any_word_in_def str_in_def cps_def)

lemma categorize_commit_in_table: "categorize_commit lw c \<in> set COMMIT_TYPES"
proof (cases "has_type_prefix (lw (message c))")
  case True
  then obtain x where x: "x \<in> set COMMIT_TYPES"
    "(case x of (commit_type, emoji, description) \<Rightarrow> startswith (lw (message c)) (commit_type @ cps '':''))"
    by (auto simp: has_type_prefix_def list_ex_iff)
  then obtain y where y: "find (\<lambda>(commit_type, emoji, description). startswith (lw (message c)) (commit_type @ cps '':'')) COMMIT_TYPES = Some y"
    by (cases "find (\<lambda>(commit_type, emoji, description). startswith (lw (message c)) (commit_type @ cps '':'')) COMMIT_TYPES")
       (auto simp: find_None_iff)
  then have "y \<in> set COMMIT_TYPES" by (rule find_Some_in)
  moreover from y have "categorize_commit lw c = y"
    by (cases y) (simp add: categorize_commit_def)
  ultimately show ?thesis by simp
next
  case False
  from categorize_commit_keywords [of lw c, OF False]
  have "\<exists>t. category_of t = Some (categorize_commit lw c)"
    by (auto split: option.splits prod.splits)
  then show ?thesis using category_of_in_table by blast
qed

text \<open>
  Claim C6. \<open>categorize_commit\<close> returns, for every message and every lower-casing
  \<open>lw\<close>, one entry of the table; when no prefix and no trigger word matches the
  lower-cased message \<open>lw (message c)\<close>, that entry is the chore entry, and so it is
  for the empty message, which every lower-casing leaves empty.
\<close>

theorem categorize_commit_total:
  "categorize_commit lw c \<in> set COMMIT_TYPES
   \<and> (\<not> has_type_prefix (lw (message c)) \<and> no_keyword (lw (message c)) \<longrightarrow>
        categorize_commit lw c = (cps ''chore'', emoji_wrench @ cps '' Changed'', cps ''Maintenance tasks and chores''))
   \<and> (lw [] = [] \<and> message c = [] \<longrightarrow>
        categorize_commit lw c = (cps ''chore'', emoji_wrench @ cps '' Changed'', cps ''Maintenance tasks and chores''))"
proof -
  let ?msg = "lw (message c)"
  let ?chore = "(cps ''chore'', emoji_wrench @ cps '' Changed'', cps ''Maintenance tasks and chores'')"
  note member = categorize_commit_in_table [of lw c]
  have default: "categorize_commit lw c = ?chore" if "\<not> has_type_prefix ?msg" "no_keyword ?msg"
    using categorize_commit_keywords [of lw c, OF that(1)] no_keyword_find [OF that(2)]
    by (simp add: category_of_simps)
  have "categorize_commit lw c = ?chore" if "lw [] = []" "message c = []"
    using default empty_no_prefix empty_no_keyword that by simp
  with member default show ?thesis by blast
qed

text \<open>
  The claim at a message that matches nothing, and at the empty message, with the ASCII
  lower-casing.
\<close>

theorem categorize_commit_total_witness:
  "categorize_commit lower (mk_commit ''Bump version to 1.2.3'' 0 0)
     = (cps ''chore'', emoji_wrench @ cps '' Changed'', cps ''Maintenance tasks and chores'')
   \<and> categorize_commit lower (mk_commit [] 0 0)
     = (cps ''chore'', emoji_wrench @ cps '' Changed'', cps ''Maintenance tasks and chores'')"
proof -
  have 1: "\<not> has_type_prefix (lower (message (mk_commit ''Bump version to 1.2.3'' 0 0)))"
    by (simp add: has_type_prefix_def COMMIT_TYPES_def mk_commit_def startswith_def lower_def lower_cp_def cps_def)
  have 2: "no_keyword (lower (message (mk_commit ''Bump version to 1.2.3'' 0 0)))"
    by (simp add: no_keyword_def spec_keyword_priority_def any_word_in_def str_in_def mk_commit_def lower_def lower_cp_def cps_def sublist_Cons_right)
  have 3: "lower [] = []" "message (mk_commit [] 0 0) = []"
    by (simp_all add: mk_commit_def cps_def lower_def)
  from categorize_commit_total [of lower "mk_commit ''Bump version to 1.2.3'' 0 0"] 1 2
    categorize_commit_total [of lower "mk_commit [] 0 0"] 3
  show ?thesis by blast
qed

section \<open>Properties of the formatter and of the empty section\<close>


lemma digits_of_nat_isdigit: "list_all isdigit (digits_of_nat n)"
proof (induction n rule: digits_of_nat.induct)
  case (1 n)
  show ?case
  proof (cases "n < 10")
    case True
    then show ?thesis by (subst digits_of_nat.simps) (simp add: isdigit_def)
  next
    case False
    have "n mod 10 < 10" by simp
    then have "isdigit (48 + n mod 10)" unfolding isdigit_def by linarith
    with False "1.IH" show ?thesis by (subst digits_of_nat.simps) simp
  qed
qed

lemma foldl_digits_of_nat: "foldl (\<lambda>a d. 10 * a + (d - 48)) 0 (digits_of_nat n) = n"
proof (induction n rule: digits_of_nat.induct)
  case (1 n)
  show ?case
  proof (cases "n < 10")
    case True
    then show ?thesis by (subst digits_of_nat.simps) simp
  next
    case False
    with "1.IH" show ?thesis by (subst digits_of_nat.simps) simp
  qed
qed

lemma int_of_digits_of_nat: "int_of_digits (digits_of_nat n) = int n"
  by (simp add: int_of_digits_def foldl_digits_of_nat)

lemma str_of_int_decimal:
  "0 \<le> i \<Longrightarrow> list_all isdigit (str_of_int i) \<and> int_of_digits (str_of_int i) = i"
  by (simp add: str_of_int_def digits_of_nat_isdigit int_of_digits_of_nat)

text \<open>
  Claim C5. With both counts zero (or not positive) the formatted text is the cleaned
  message and nothing else. With a positive count the cleaned message is followed by a
  space and, between backticks, the parts joined by a comma and a space: \<^verbatim>\<open>+n\<close> for
  positive insertions, \<^verbatim>\<open>-m\<close> for positive deletions, each number in decimal digits.
\<close>

theorem format_commit_with_stats_annotation:
  "format_commit_with_stats msg 0 0 = clean_commit_message msg
   \<and> (n \<le> 0 \<and> m \<le> 0 \<longrightarrow> format_commit_with_stats msg n m = clean_commit_message msg)
   \<and> (0 < n \<and> 0 < m \<longrightarrow>
        format_commit_with_stats msg n m
        = clean_commit_message msg @ cps '' '' @ [96] @ cps ''+'' @ str_of_int n @ cps '', ''
          @ cps ''-'' @ str_of_int m @ [96])
   \<and> (0 < n \<and> m \<le> 0 \<longrightarrow>
        format_commit_with_stats msg n m
        = clean_commit_message msg @ cps '' '' @ [96] @ cps ''+'' @ str_of_int n @ [96])
   \<and> (n \<le> 0 \<and> 0 < m \<longrightarrow>
        format_commit_with_stats msg n m
        = clean_commit_message msg @ cps '' '' @ [96] @ cps ''-'' @ str_of_int m @ [96])
   \<and> (0 < n \<longrightarrow> list_all isdigit (str_of_int n) \<and> int_of_digits (str_of_int n) = n)
   \<and> (0 < m \<longrightarrow> list_all isdigit (str_of_int m) \<and> int_of_digits (str_of_int m) = m)"
  using str_of_int_decimal [of n] str_of_int_decimal [of m]
  by (simp add: format_commit_with_stats_def Let_def)

lemma clean_resolve_crash:
  "clean_commit_message (cps ''fix: resolve crash'') = cps ''Resolve crash''"
  by code_simp

lemma str_of_int_15_3: "str_of_int 15 = cps ''15''" "str_of_int 3 = cps ''3''"
  by code_simp+

text \<open>
  The claim at the counts (15, 3), (15, 0), (0, 3) and (0, 0).
\<close>

theorem format_commit_with_stats_annotation_witness:
  "format_commit_with_stats (cps ''fix: resolve crash'') 15 3
     = cps ''Resolve crash '' @ [96] @ cps ''+15, -3'' @ [96]
   \<and> format_commit_with_stats (cps ''fix: resolve crash'') 15 0
     = cps ''Resolve crash '' @ [96] @ cps ''+15'' @ [96]
   \<and> format_commit_with_stats (cps ''fix: resolve crash'') 0 3
     = cps ''Resolve crash '' @ [96] @ cps ''-3'' @ [96]
   \<and> format_commit_with_stats (cps ''fix: resolve crash'') 0 0 = cps ''Resolve crash''"
proof -
  have "format_commit_with_stats (cps ''fix: resolve crash'') 15 3
          = cps ''Resolve crash'' @ cps '' '' @ [96] @ cps ''+'' @ cps ''15'' @ cps '', '' @ cps ''-''
            @ cps ''3'' @ [96]"
    and "format_commit_with_stats (cps ''fix: resolve crash'') 15 0
          = cps ''Resolve crash'' @ cps '' '' @ [96] @ cps ''+'' @ cps ''15'' @ [96]"
    and "format_commit_with_stats (cps ''fix: resolve crash'') 0 3
          = cps ''Resolve crash'' @ cps '' '' @ [96] @ cps ''-'' @ cps ''3'' @ [96]"
    and "format_commit_with_stats (cps ''fix: resolve crash'') 0 0 = cps ''Resolve crash''"
    using format_commit_with_stats_annotation [of "cps ''fix: resolve crash''" 15 3]
      format_commit_with_stats_annotation [of "cps ''fix: resolve crash''" 15 0]
      format_commit_with_stats_annotation [of "cps ''fix: resolve crash''" 0 3]
    by (simp_all add: clean_resolve_crash str_of_int_15_3)
  then show ?thesis by (simp add: cps_def)
qed

text \<open>
  Claim C7. For every tag and date the section of an empty commit list is the heading
  of the release followed by exactly the three headings Added, Changed and Fixed, each
  with the line \<^verbatim>\<open>- N/A\<close> under it, and the rule; it has no line of total changes.
\<close>

theorem generate_release_section_empty:
  "(let body = concat (map (\<lambda>h. cps ''### '' @ h @ cps ''\<newline>- N/A\<newline>\<newline>'')
                    [emoji_sparkles @ cps '' Added'', emoji_wrench @ cps '' Changed'',
                     emoji_bug @ cps '' Fixed''])
               @ cps ''---\<newline>\<newline>''
    in generate_release_section lw tag [] release_date
         = cps ''## ['' @ tag @ cps ''] - '' @ release_date @ cps ''\<newline>\<newline>'' @ body
       \<and> \<not> str_in (cps ''commits'') body \<and> \<not> str_in (cps ''Total'') body)"
  by (simp add: generate_release_section_def Let_def cps_def str_in_def emoji_sparkles_def
      emoji_wrench_def emoji_bug_def sublist_Cons_right)

section \<open>Properties of the rendered section\<close>

lemma fold_bullets: "fold (\<lambda>c sec'. sec' @ bullet_line c) cs sec = sec @ concat (map bullet_line cs)"
  by (induction cs arbitrary: sec) simp_all

lemma fold_groups:
  "fold (\<lambda>entry sec.
           (case categorized (fst entry) of
              None \<Rightarrow> sec
            | Some cs \<Rightarrow>
                fold (\<lambda>c sec'. sec' @ bullet_line c) cs (sec @ heading_line entry) @ nl))
        entries sec0
   = sec0 @ concat (map (\<lambda>entry. case categorized (fst entry) of
                                     None \<Rightarrow> []
                                   | Some cs \<Rightarrow> heading_line entry @ concat (map bullet_line cs) @ nl)
                     entries)"
  by (induction entries arbitrary: sec0) (simp_all add: fold_bullets split: option.splits)

lemma fold_categorize:
  "fold (\<lambda>c categorized.
           (case categorize_commit lw c of (commit_type, emoji, description) \<Rightarrow>
              categorized(commit_type \<mapsto>
                (case categorized commit_type of None \<Rightarrow> [] | Some cs \<Rightarrow> cs) @ [c])))
        commits m t
   = (case m t of
        None \<Rightarrow> if group_of lw t commits = [] then None else Some (group_of lw t commits)
      | Some cs \<Rightarrow> Some (cs @ group_of lw t commits))"
proof (induction commits arbitrary: m)
  case Nil
  then show ?case by (simp add: group_of_def split: option.splits)
next
  case (Cons c commits)
  let ?step = "\<lambda>c categorized.
           (case categorize_commit lw c of (commit_type, emoji, description) \<Rightarrow>
              categorized(commit_type \<mapsto>
                (case categorized commit_type of None \<Rightarrow> [] | Some cs \<Rightarrow> cs) @ [c]))"
  obtain ct e d where cc: "categorize_commit lw c = (ct, e, d)" by (cases "categorize_commit lw c")
  let ?m' = "m(ct \<mapsto> (case m ct of None \<Rightarrow> [] | Some cs \<Rightarrow> cs) @ [c])"
  have step: "?step c m = ?m'" by (simp add: cc)
  have "fold ?step (c # commits) m t = fold ?step commits (?step c m) t" by simp
  also have "\<dots> = fold ?step commits ?m' t" by (simp only: step)
  also have "\<dots> = (case ?m' t of
        None \<Rightarrow> if group_of lw t commits = [] then None else Some (group_of lw t commits)
      | Some cs \<Rightarrow> Some (cs @ group_of lw t commits))" by (rule Cons.IH)
  also have "\<dots> = (case m t of
        None \<Rightarrow> if group_of lw t (c # commits) = [] then None else Some (group_of lw t (c # commits))
      | Some cs \<Rightarrow> Some (cs @ group_of lw t (c # commits)))"
    by (cases "ct = t") (auto simp: group_of_def cc split: option.splits)
  finally show ?case .
qed

lemma categorize_all_group:
  "categorize_all lw commits t = (if group_of lw t commits = [] then None else Some (group_of lw t commits))"
  unfolding categorize_all_def fold_categorize by simp

lemma count_key_distinct:
  "distinct (map fst entries) \<Longrightarrow> k \<in> fst ` set entries \<Longrightarrow>
   sum_list (map (\<lambda>entry. if k = fst entry then (1::nat) else 0) entries) = 1"
proof (induction entries)
  case Nil
  then show ?case by simp
next
  case (Cons a entries)
  show ?case
  proof (cases "k = fst a")
    case True
    with Cons.prems(1) have "k \<notin> fst ` set entries" by simp
    then have "sum_list (map (\<lambda>entry. if k = fst entry then (1::nat) else 0) entries) = 0"
      by (auto simp: sum_list_eq_0_iff)
    with True show ?thesis by simp
  next
    case False
    with Cons show ?thesis by auto
  qed
qed

lemma groups_partition:
  assumes "distinct (map fst entries)" and "\<forall>c\<in>set commits. f c \<in> fst ` set entries"
  shows "sum_list (map (\<lambda>entry. length (filter (\<lambda>c. f c = fst entry) commits)) entries)
         = length commits"
  using assms(2)
proof (induction commits)
  case Nil
  then show ?case by simp
next
  case (Cons c commits)
  have "sum_list (map (\<lambda>entry. length (filter (\<lambda>c. f c = fst entry) (c # commits))) entries)
        = sum_list (map (\<lambda>entry. (if f c = fst entry then (1::nat) else 0)
                                   + length (filter (\<lambda>c. f c = fst entry) commits)) entries)"
    by (rule arg_cong [where f = sum_list]) simp
  also have "\<dots> = sum_list (map (\<lambda>entry. if f c = fst entry then (1::nat) else 0) entries)
                  + sum_list (map (\<lambda>entry. length (filter (\<lambda>c. f c = fst entry) commits)) entries)"
    by (rule sum_list_addf)
  also have "\<dots> = 1 + length commits"
    using Cons count_key_distinct [OF assms(1), of "f c"] by simp
  finally show ?case by simp
qed

lemma categorize_commit_key: "fst (categorize_commit lw c) \<in> fst ` set COMMIT_TYPES"
  using categorize_commit_in_table [of lw c] by (auto intro: rev_image_eqI)

text \<open>
  Claim C8. For a non-empty list of commits the section is the release heading, then,
  for the types of the table in the order of the table, the text of the group of each
  type (nothing for an empty group; for a non-empty group its heading line, one bullet
  per commit of the group in the order of arrival, and a blank line), then the line of
  total changes with the number of commits, then the rule. Every commit is in the group
  of exactly one type: the sizes of the groups add up to the number of commits.
\<close>

theorem generate_release_section_groups:
  assumes "commits \<noteq> []"
  shows "generate_release_section lw tag commits release_date
         = cps ''## ['' @ tag @ cps ''] - '' @ release_date @ cps ''\<newline>\<newline>''
           @ concat (map (group_text lw commits) COMMIT_TYPES)
           @ cps ''**Total Changes:** '' @ str_of_int (int (length commits)) @ cps '' commits\<newline>\<newline>''
           @ cps ''---\<newline>\<newline>''
         \<and> sum_list (map (\<lambda>entry. length (group_of lw (fst entry) commits)) COMMIT_TYPES)
           = length commits"
proof -
  have groups: "(\<lambda>entry. case categorize_all lw commits (fst entry) of
                            None \<Rightarrow> []
                          | Some cs \<Rightarrow> heading_line entry @ concat (map bullet_line cs) @ cps ''\<newline>'')
                = group_text lw commits"
    by (rule ext) (simp add: categorize_all_group group_text_def)
  have rendered: "generate_release_section lw tag commits release_date
         = cps ''## ['' @ tag @ cps ''] - '' @ release_date @ cps ''\<newline>\<newline>''
           @ concat (map (group_text lw commits) COMMIT_TYPES)
           @ cps ''**Total Changes:** '' @ str_of_int (int (length commits)) @ cps '' commits\<newline>\<newline>''
           @ cps ''---\<newline>\<newline>''"
    using assms unfolding generate_release_section_def Let_def fold_groups groups by simp
  have "sum_list (map (\<lambda>entry. length (filter (\<lambda>c. fst (categorize_commit lw c) = fst entry) commits))
                  COMMIT_TYPES) = length commits"
    using COMMIT_TYPES_distinct categorize_commit_key by (intro groups_partition) auto
  with rendered show ?thesis by (simp add: group_of_def)
qed

lemma render_witness_types:
  "fst (categorize_commit lower (mk_commit ''chore: b'' 1 0)) = cps ''chore''"
  "fst (categorize_commit lower (mk_commit ''refactor: a'' 0 2)) = cps ''refactor''"
  by (simp_all add: categorize_commit_def mk_commit_def COMMIT_TYPES_def startswith_def lower_def
      lower_cp_def cps_def)

lemma render_witness_bullets:
  "bullet_line (mk_commit ''chore: b'' 1 0) = cps ''- B '' @ [96] @ cps ''+1'' @ [96] @ cps ''\<newline>''"
  "bullet_line (mk_commit ''refactor: a'' 0 2) = cps ''- A '' @ [96] @ cps ''-2'' @ [96] @ cps ''\<newline>''"
  by code_simp+

lemma render_witness_groups:
  "concat (map (group_text lower [mk_commit ''chore: b'' 1 0, mk_commit ''refactor: a'' 0 2]) COMMIT_TYPES)
   = heading_line (cps ''refactor'', emoji_wrench @ cps '' Changed'', cps ''Code refactoring and restructuring'')
     @ bullet_line (mk_commit ''refactor: a'' 0 2) @ cps ''\<newline>''
     @ heading_line (cps ''chore'', emoji_wrench @ cps '' Changed'', cps ''Maintenance tasks and chores'')
     @ bullet_line (mk_commit ''chore: b'' 1 0) @ cps ''\<newline>''"
  by (simp add: group_text_def group_of_def COMMIT_TYPES_def render_witness_types cps_def)

lemma render_witness_total:
  "str_of_int (int (length [mk_commit ''chore: b'' 1 0, mk_commit ''refactor: a'' 0 2])) = cps ''2''"
  by code_simp

text \<open>
  The claim at two commits that arrive as chore, refactor: the refactor group is
  rendered first, as the table orders it.
\<close>

theorem generate_release_section_groups_witness:
  "generate_release_section lower (cps ''v1'')
     [mk_commit ''chore: b'' 1 0, mk_commit ''refactor: a'' 0 2] (cps ''2024-01-01'')
   = cps ''## [v1] - 2024-01-01\<newline>\<newline>### '' @ emoji_wrench
     @ cps '' Changed Code refactoring and restructuring\<newline>- A '' @ [96] @ cps ''-2'' @ [96]
     @ cps ''\<newline>\<newline>### '' @ emoji_wrench
     @ cps '' Changed Maintenance tasks and chores\<newline>- B '' @ [96] @ cps ''+1'' @ [96]
     @ cps ''\<newline>\<newline>**Total Changes:** 2 commits\<newline>\<newline>---\<newline>\<newline>''"
proof -
  have ne: "[mk_commit ''chore: b'' 1 0, mk_commit ''refactor: a'' 0 2] \<noteq> []"
    by simp
  note eq = generate_release_section_groups [OF ne, THEN conjunct1, of lower "cps ''v1''" "cps ''2024-01-01''"]
  show ?thesis
    unfolding eq render_witness_groups render_witness_total render_witness_bullets heading_line_def
    by (simp add: cps_def)
qed

section \<open>Heading lines of the categories\<close>

text \<open>
  Claim C10 says that style, refactor, chore, build and ci carry the same label and that
  a rendered section can therefore hold several groups with the same heading line. In
  the table the label of style has another emoji than the wrench, and the heading line of
  a group is made of the label and the description: the lines of refactor and chore,
  which share the label, differ.
\<close>

theorem heading_labels_counterexample:
  "map_of COMMIT_TYPES (cps ''style'')
     = Some (emoji_palette @ cps '' Changed'', cps ''Code style and formatting changes'')
   \<and> emoji_palette @ cps '' Changed'' \<noteq> emoji_wrench @ cps '' Changed''
   \<and> heading_line (cps ''refactor'', emoji_wrench @ cps '' Changed'', cps ''Code refactoring and restructuring'')
       \<noteq> heading_line (cps ''chore'', emoji_wrench @ cps '' Changed'', cps ''Maintenance tasks and chores'')"
  by (simp add: COMMIT_TYPES_def heading_line_def cps_def emoji_palette_def emoji_wrench_def)

lemma heading_lines_table_distinct: "distinct (map heading_line COMMIT_TYPES)"
  by (simp add: COMMIT_TYPES_def heading_line_def cps_def emoji_sparkles_def emoji_bug_def
      emoji_books_def emoji_palette_def emoji_wrench_def emoji_rocket_def emoji_test_tube_def
      emoji_shield_def emoji_arrows_def emoji_wastebasket_def emoji_package_def)

text \<open>
  Claim C10, amended. The types refactor, chore, build and ci share the label made of
  the wrench and the word Changed; style, revert and deps carry the word Changed with
  three other emoji. The heading line of a group is the label followed by the
  description of the type, and the heading lines of the fourteen types are pairwise
  different; so in every rendered section the heading lines of the groups are pairwise
  different.
\<close>

theorem heading_lines_distinct:
  "map (\<lambda>t. map_option fst (map_of COMMIT_TYPES (cps t))) [''refactor'', ''chore'', ''build'', ''ci'']
     = [Some (emoji_wrench @ cps '' Changed''), Some (emoji_wrench @ cps '' Changed''),
        Some (emoji_wrench @ cps '' Changed''), Some (emoji_wrench @ cps '' Changed'')]
   \<and> map (\<lambda>t. map_option fst (map_of COMMIT_TYPES (cps t))) [''style'', ''revert'', ''deps'']
     = [Some (emoji_palette @ cps '' Changed''), Some (emoji_arrows @ cps '' Changed''),
        Some (emoji_package @ cps '' Changed'')]
   \<and> distinct (map heading_line COMMIT_TYPES)
   \<and> (\<forall>lw commits. distinct (map heading_line
          (filter (\<lambda>entry. group_of lw (fst entry) commits \<noteq> []) COMMIT_TYPES)))"
proof -
  have "map (\<lambda>t. map_option fst (map_of COMMIT_TYPES (cps t))) [''refactor'', ''chore'', ''build'', ''ci'']
     = [Some (emoji_wrench @ cps '' Changed''), Some (emoji_wrench @ cps '' Changed''),
        Some (emoji_wrench @ cps '' Changed''), Some (emoji_wrench @ cps '' Changed'')]"
    by (simp add: COMMIT_TYPES_def cps_def)
  moreover have "map (\<lambda>t. map_option fst (map_of COMMIT_TYPES (cps t))) [''style'', ''revert'', ''deps'']
     = [Some (emoji_palette @ cps '' Changed''), Some (emoji_arrows @ cps '' Changed''),
        Some (emoji_package @ cps '' Changed'')]"
    by (simp add: COMMIT_TYPES_def cps_def)
  moreover have "distinct (map heading_line (filter P COMMIT_TYPES))" for P
    using heading_lines_table_distinct by (rule distinct_map_filter)
  ultimately show ?thesis using heading_lines_table_distinct by blast
qed

section \<open>Splicing into the changelog\<close>

lemma find_from_found_length: "find_from sub s i \<noteq> - 1 \<Longrightarrow> length sub \<le> length s"
proof (induction s arbitrary: i)
  case Nil
  then show ?case by (simp split: if_splits)
next
  case (Cons c cs)
  show ?case
  proof (cases "prefix sub (c # cs)")
    case True
    then show ?thesis by (rule prefix_length_le)
  next
    case False
    with Cons.prems have "find_from sub cs (Suc i) \<noteq> - 1" by simp
    then have "length sub \<le> length cs" by (rule Cons.IH)
    then show ?thesis by simp
  qed
qed

lemma prefix_append_short:
  assumes "prefix sub (a @ b)" and "length sub \<le> length a"
  shows "prefix sub a"
  using assms by (metis prefix_length_prefix prefixI)

lemma find_from_append:
  "find_from sub a i \<noteq> - 1 \<Longrightarrow> find_from sub (a @ b) i = find_from sub a i"
proof (induction a arbitrary: i)
  case Nil
  then have "sub = []" by (simp split: if_splits)
  then show ?case by (cases b) simp_all
next
  case (Cons c cs)
  show ?case
  proof (cases "prefix sub (c # cs)")
    case True
    then have "prefix sub ((c # cs) @ b)" by (rule prefix_prefix)
    with True show ?thesis by simp
  next
    case False
    with Cons.prems have found: "find_from sub cs (Suc i) \<noteq> - 1" by simp
    then have "length sub \<le> length (c # cs)" using find_from_found_length by fastforce
    with False have "\<not> prefix sub ((c # cs) @ b)" using prefix_append_short by blast
    with False Cons.IH [OF found] show ?thesis by simp
  qed
qed

lemma default_changelog_length: "length default_changelog = 354"
  by (simp add: default_changelog_def cps_def emoji_sparkles_def emoji_wrench_def emoji_bug_def)

lemma default_changelog_unreleased:
  "find_from (cps ''## [Unreleased]'') default_changelog 0 = 273"
  by (simp add: default_changelog_def cps_def emoji_sparkles_def emoji_wrench_def emoji_bug_def)

lemma default_changelog_rule:
  "find_from (cps ''---\<newline>\<newline>'') (drop 273 default_changelog) 273 = 349"
  by (simp add: default_changelog_def cps_def emoji_sparkles_def emoji_wrench_def emoji_bug_def)

text \<open>
  When the changelog is the default text followed by earlier content, the position found
  for the rule is 349 and the insert position 355, one past the end of the default text:
  the first character of the earlier content stays in front of the new section.
\<close>

lemma update_changelog_after_default:
  "update_changelog_for_tag (Some (default_changelog @ old)) release_section
   = default_changelog @ take 1 old @ release_section @ drop 1 old"
proof -
  let ?doc = "default_changelog @ old"
  have u: "find_str ?doc (cps ''## [Unreleased]'') 0 = 273"
    using find_from_append [of "cps ''## [Unreleased]''" default_changelog 0 old]
    by (simp add: find_str_def default_changelog_unreleased)
  have "drop 273 ?doc = drop 273 default_changelog @ old"
    by (simp add: default_changelog_length)
  then have e: "find_str ?doc (cps ''---\<newline>\<newline>'') 273 = 349"
    using find_from_append [of "cps ''---\<newline>\<newline>''" "drop 273 default_changelog" 273 old]
    by (simp add: find_str_def default_changelog_rule default_changelog_length)
  have "take 355 ?doc = default_changelog @ take 1 old" "drop 355 ?doc = drop 1 old"
    by (simp_all add: default_changelog_length)
  then show ?thesis
    by (simp add: update_changelog_for_tag_def u e)
qed

text \<open>
  Without a file the section follows the default text directly: the slice stops at the
  end of the text.
\<close>

lemma update_changelog_first_run:
  "update_changelog_for_tag None release_section = default_changelog @ release_section"
proof -
  have u: "find_str default_changelog (cps ''## [Unreleased]'') 0 = 273"
    by (simp add: find_str_def default_changelog_unreleased)
  have e: "find_str default_changelog (cps ''---\<newline>\<newline>'') 273 = 349"
    by (simp add: find_str_def default_changelog_rule default_changelog_length)
  show ?thesis
    by (simp add: update_changelog_for_tag_def u e default_changelog_length)
qed

lemma find_from_none: "find_from sub s i = - 1 \<longleftrightarrow> \<not> sublist sub s"
  by (induction s arbitrary: i) (auto simp: sublist_Cons_right)

text \<open>
  Without any rule in the changelog the section is appended after a line break.
\<close>

lemma update_changelog_no_marker:
  assumes "\<not> str_in (cps ''---\<newline>\<newline>'') existing"
  shows "update_changelog_for_tag (Some existing) release_section
         = existing @ cps ''\<newline>'' @ release_section"
proof -
  have "\<not> sublist (cps ''---\<newline>\<newline>'') (drop n existing)" for n
    using assms sublist_drop sublist_order.order.trans unfolding str_in_def by blast
  then have "find_str existing (cps ''---\<newline>\<newline>'') start = - 1" for start
    by (simp add: find_str_def Let_def find_from_none)
  then show ?thesis by (simp add: update_changelog_for_tag_def)
qed

text \<open>
  Claim C3 asks that the new section stands immediately after the first rule that
  follows the heading of the unreleased section, with none of the following content in
  front of it. Two runs of the tool show that this fails: the first run, without a file,
  writes the default text and the section of v1.0.0; the second run puts the section of
  v1.1.0 after the first character of the section of v1.0.0. The source adds 6 to the
  position of the rule, whose text has five characters, where its comment says that the
  position is the one after the rule.
\<close>

theorem update_changelog_for_tag_second_release:
  "update_changelog_for_tag
     (Some (update_changelog_for_tag None
              (generate_release_section lower (cps ''v1.0.0'') [] (cps ''2024-01-01''))))
     (generate_release_section lower (cps ''v1.1.0'') [] (cps ''2024-02-01''))
   = default_changelog @ cps ''#''
     @ generate_release_section lower (cps ''v1.1.0'') [] (cps ''2024-02-01'')
     @ tl (generate_release_section lower (cps ''v1.0.0'') [] (cps ''2024-01-01''))
   \<and> update_changelog_for_tag
     (Some (update_changelog_for_tag None
              (generate_release_section lower (cps ''v1.0.0'') [] (cps ''2024-01-01''))))
     (generate_release_section lower (cps ''v1.1.0'') [] (cps ''2024-02-01''))
   \<noteq> default_changelog
     @ generate_release_section lower (cps ''v1.1.0'') [] (cps ''2024-02-01'')
     @ generate_release_section lower (cps ''v1.0.0'') [] (cps ''2024-01-01'')"
proof -
  let ?old = "generate_release_section lower (cps ''v1.0.0'') [] (cps ''2024-01-01'')"
  let ?new = "generate_release_section lower (cps ''v1.1.0'') [] (cps ''2024-02-01'')"
  have old: "take 1 ?old = cps ''#''" "drop 1 ?old = tl ?old"
    by (simp_all add: generate_release_section_def cps_def drop_Suc)
  have eq: "update_changelog_for_tag (Some (update_changelog_for_tag None ?old)) ?new
            = default_changelog @ cps ''#'' @ ?new @ tl ?old"
    by (simp only: update_changelog_first_run update_changelog_after_default old)
  have "cps ''#'' @ ?new @ tl ?old \<noteq> ?new @ ?old"
    by (simp add: generate_release_section_def cps_def)
  with eq show ?thesis by simp
qed

section \<open>Cleaning a commit message\<close>

lemma lower_length: "length (lower s) = length s"
  by (simp add: lower_def)

lemma cps_inject: "cps a = cps b \<Longrightarrow> a = b"
proof -
  have "inj (of_char :: char \<Rightarrow> nat)" by (simp add: inj_on_def)
  then show "cps a = cps b \<Longrightarrow> a = b" unfolding cps_def by (simp add: inj_map_eq_map)
qed

lemma type_alternatives_no_colon: "t \<in> set type_alternatives \<Longrightarrow> 58 \<notin> set (cps t)"
  by (auto simp: type_alternatives_def cps_def)

lemma type_alternative_found:
  assumes "t \<in> set type_alternatives"
  shows "find (\<lambda>t'. startswith (cps t @ 58 # rest) (cps t' @ cps '':'')) type_alternatives = Some t"
proof -
  let ?P = "\<lambda>t'. startswith (cps t @ 58 # rest) (cps t' @ cps '':'')"
  have here: "?P t" by (simp add: startswith_def cps_colon)
  have only: "\<forall>y\<in>set type_alternatives. ?P y \<longrightarrow> t = y"
  proof (intro ballI impI)
    fix y
    assume y: "y \<in> set type_alternatives" "?P y"
    from y(2) have "prefix (cps y @ [58]) (cps t @ 58 # rest)"
      by (simp add: startswith_def cps_colon)
    moreover have "prefix (cps t @ [58]) (cps t @ 58 # rest)" by simp
    moreover have "58 \<notin> set (cps y)" using y(1) by (rule type_alternatives_no_colon)
    moreover have "58 \<notin> set (cps t)" using assms by (rule type_alternatives_no_colon)
    ultimately have "cps y = cps t" by (rule prefix_sep_unique)
    then show "t = y" by (simp add: cps_inject)
  qed
  from assms here only show ?thesis by (rule find_unique)
qed

lemma re_sub_type_prefix_strips:
  assumes "is_type_word p"
  shows "re_sub_type_prefix (p @ cps '':'' @ rest) = lstrip rest"
proof -
  from assms obtain t where t: "t \<in> set type_alternatives" "lower p = cps t"
    by (auto simp: is_type_word_def)
  have len: "length p = length t"
    using lower_length [of p] t(2) by (simp add: cps_def)
  have low: "lower (p @ cps '':'' @ rest) = cps t @ 58 # lower rest"
    by (simp add: lower_def t(2) [unfolded lower_def] cps_def lower_cp_def)
  show ?thesis
    unfolding re_sub_type_prefix_def low type_alternative_found [OF t(1)]
    by (simp add: len lstrip_def cps_def)
qed

lemma re_sub_type_prefix_none:
  assumes "\<not> starts_with_type_colon m"
  shows "re_sub_type_prefix m = m"
proof -
  from assms have "find (\<lambda>t. startswith (lower m) (cps t @ cps '':'')) type_alternatives = None"
    by (auto simp: starts_with_type_colon_def list_ex_iff find_None_iff)
  then show ?thesis by (simp add: re_sub_type_prefix_def)
qed

lemma common_prefix_none:
  "\<not> starts_with_common_prefix r \<Longrightarrow>
   find (\<lambda>pre. startswith (lower r) (lower (cps pre))) prefixes_to_remove = None"
  by (auto simp: starts_with_common_prefix_def list_ex_iff find_None_iff)

text \<open>
  A message that starts with no type and colon and with no entry of
  \<^verbatim>\<open>prefixes_to_remove\<close> is only capitalized.
\<close>

lemma clean_commit_message_no_prefix:
  assumes "\<not> starts_with_type_colon m" and "\<not> starts_with_common_prefix m"
  shows "clean_commit_message m = capitalize_first m"
  by (simp add: clean_commit_message_def re_sub_type_prefix_none [OF assms(1)]
      common_prefix_none [OF assms(2)])

text \<open>
  A leading type and colon, in any case, is removed with the whitespace after it; when
  the rest starts with no entry of \<^verbatim>\<open>prefixes_to_remove\<close>, nothing else is removed and the
  rest is capitalized.
\<close>

lemma clean_commit_message_one_prefix:
  assumes "is_type_word p" and "\<not> starts_with_common_prefix (lstrip rest)"
  shows "clean_commit_message (p @ cps '':'' @ rest) = capitalize_first (lstrip rest)"
  by (simp add: clean_commit_message_def re_sub_type_prefix_strips [OF assms(1)]
      common_prefix_none [OF assms(2)])

lemmas clean_eval_defs = clean_commit_message_def re_sub_type_prefix_def type_alternatives_def
  prefixes_to_remove_def startswith_def lower_def lower_cp_def cps_def isspace_def strip_def
  capitalize_first_def upper_cp_def

text \<open>
  Claim C4 asks that one leading prefix of the form \<^verbatim>\<open>type:\<close> or \<^verbatim>\<open>type(scope):\<close> is
  removed, and at most one. The second pass of the source, over \<^verbatim>\<open>prefixes_to_remove\<close>,
  breaks both parts: of a prefix with a scope it cuts off the type and the opening
  parenthesis only, for seven of the fourteen types, and leaves the scope, the closing
  parenthesis and the colon in the text; and after the substitution has removed a first
  prefix it removes a second one.
\<close>

theorem clean_commit_message_scope_and_second_prefix:
  "clean_commit_message (cps ''feat(ui): add x'') = cps ''Ui): add x''
   \<and> clean_commit_message (cps ''perf(core): speed'') = cps ''Perf(core): speed''
   \<and> clean_commit_message (cps ''feat: fix: foo'') = cps ''Foo''"
  by (simp add: clean_eval_defs)

text \<open>
  The example of the specification.
\<close>

lemma clean_commit_message_example:
  "clean_commit_message (cps ''fix: resolve crash on divide by zero'')
   = cps ''Resolve crash on divide by zero''"
  by (simp add: clean_eval_defs)

section \<open>Properties of the statistics\<close>

subsection \<open>Lines and markers\<close>














subsection \<open>The search for a count\<close>













subsection \<open>The line of the counts in the output of git\<close>



















end
